theory Spec2Isabelle
  imports Complex_Main
begin

section \<open>JavaScript values\<close>

text \<open>
  A property of a JavaScript object holds \<open>undefined\<close> until it is assigned; the
  constructor of the level assigns \<open>null\<close> to one of them. A property that holds an
  object is \<open>Obj\<close>. Reading a property of \<open>undefined\<close> or \<open>null\<close> raises a
  \<open>TypeError\<close>, which is the only error the two source files can raise themselves.
\<close>

datatype 'a jsref = Undefined | Null | Obj 'a

datatype presence = IsUndefined | IsNull | IsObject

fun presence_of :: "'a jsref \<Rightarrow> presence" where
  "presence_of Undefined = IsUndefined"
| "presence_of Null = IsNull"
| "presence_of (Obj v) = IsObject"

text \<open>\<open>!this._running\<close>: \<open>undefined\<close>, \<open>null\<close> and \<open>false\<close> are falsy.\<close>

fun truthy :: "bool jsref \<Rightarrow> bool" where
  "truthy (Obj b) = b"
| "truthy Undefined = False"
| "truthy Null = False"

datatype error = TypeError string

section \<open>Actors\<close>

text \<open>
  The actors are engine sprites. The records hold the properties the two source files
  read or write (\<open>invincible\<close>, \<open>disableControls\<close>, \<open>damage\<close>, \<open>chase\<close>,
  \<open>ground\<close>, \<open>frameName\<close>, \<open>body.enable\<close>, the tweens added on a bullet's scale, the
  animation played on the player) and, for the engine's spatial query and the methods of
  the actor classes (which are not in the source files), the bounds and the health and
  damage numbers of the data model.
\<close>

record body =
  enable :: bool
  bounds :: "int \<times> int \<times> int \<times> int"

record tile =
  index :: nat
  tile_x :: int
  tile_y :: int

record layer =
  layer_name :: string
  tiles :: "tile list"

text \<open>
  \<open>this.add.tween(bullet.scale).to({x: 0, y: 0}, 200, Phaser.Easing.Linear.None, true)
  .onComplete.add(function() { this.destroy(); }, bullet)\<close>: a tween of the bullet's
  scale, with the listener that destroys the bullet.
\<close>

datatype easing = Linear

datatype tween_listener = DestroyBullet

record tween =
  to_x :: int
  to_y :: int
  duration :: nat
  ease :: easing
  autoStart :: bool
  onComplete :: "tween_listener list"

record bullet =
  frameName :: string
  bullet_body :: body
  bullet_damage :: int
  scale_tweens :: "tween list"

text \<open>The one player of the session, as the value of an enemy's \<open>chase\<close> property.\<close>

datatype actor_ref = PlayerRef

record enemy =
  damage :: int
  health :: int
  chase :: "actor_ref jsref"
  ground :: "layer jsref"
  enemy_body :: body

record player =
  invincible :: bool
  disableControls :: bool
  animation :: string
  player_health :: int
  player_body :: body

datatype target = Wall tile | Foe enemy

section \<open>Collaborators\<close>

text \<open>
  What the source files call and do not define: the engine's spatial query, deciding for
  two actors in their current state whether they overlap, and the methods of the actor
  classes \<open>Lilja.Player\<close>, \<open>Lilja.Zombie\<close> and of the bullets. Each is a parameter of the
  model. A method updates its receiver only (no rule mutates state outside the two actors
  involved).
\<close>

record mapobj =
  gid :: nat
  obj_x :: int
  obj_y :: int

record ext =
  overlap_player_enemy :: "player \<Rightarrow> enemy \<Rightarrow> bool"
  overlap_bullet_tile :: "bullet \<Rightarrow> tile \<Rightarrow> bool"
  overlap_bullet_enemy :: "bullet \<Rightarrow> enemy \<Rightarrow> bool"
  player_hit :: "int \<Rightarrow> player \<Rightarrow> player"
  player_makeHP :: "player \<Rightarrow> player"
  bullet_hit :: "target \<Rightarrow> bullet \<Rightarrow> bullet"
  enemy_hit :: "bullet \<Rightarrow> enemy \<Rightarrow> enemy"
  enemy_onHit :: "bullet \<Rightarrow> enemy \<Rightarrow> enemy"
  new_Zombie :: "mapobj \<Rightarrow> enemy"
  camera_width :: nat
  camera_height :: nat

section \<open>The trace of calls\<close>

text \<open>
  Every operation returns, beside the new state, the calls it made to the engine and to
  the actors, in the order it made them. An argument read from a property of \<open>this\<close> is
  recorded with the property's name and with what the property held.
\<close>

datatype arg = FieldArg string presence

datatype call =
    Collide arg arg "string option" "string option"
  | PlayerHit player int
  | BulletHit bullet target
  | EnemyHit enemy bullet
  | EnemyOnHit enemy bullet
  | AddTilesetImage string string
  | CreateLayer string
  | ResizeWorld
  | SetCollisionByExclusion "nat list" bool arg bool
  | SendToBack arg
  | AddAudio string
  | CreateFromObjects string nat string
  | SetAll string arg
  | AudioPlay string
  | AudioStop string
  | AnimationPlay string
  | TweenFrom int nat easing bool
  | DialogueStart string
  | MakeHP
  | AddText rat rat string
  | TimerCreate bool
  | TimerRepeat nat nat
  | TimerStart
  | AddTween tween

section \<open>The engine's spatial query\<close>

text \<open>
  Modelled from the spec: the engine's \<open>collide(groupA, groupB, onHit, shouldProcess?)\<close>
  of the external interfaces, which invokes \<open>onHit(a, b)\<close> once per overlapping pair,
  gated by \<open>shouldProcess(a, b)\<close> when one is given. The pairs are visited in the order of
  the groups; each callback sees the actors as the callbacks before it left them, and
  the overlap of a pair is asked of the actors' current state. \<open>s\<close> is what the callbacks
  thread beside the two actors (the trace).
\<close>

fun collide_sprite ::
  "('a \<Rightarrow> 'b \<Rightarrow> bool) \<Rightarrow> ('a \<Rightarrow> 'b \<Rightarrow> bool) \<Rightarrow> ('a \<Rightarrow> 'b \<Rightarrow> 's \<Rightarrow> 'a \<times> 'b \<times> 's)
    \<Rightarrow> 'a \<Rightarrow> 'b list \<Rightarrow> 's \<Rightarrow> 'a \<times> 'b list \<times> 's" where
  "collide_sprite ov pr cb a [] s = (a, [], s)"
| "collide_sprite ov pr cb a (b # bs) s =
     (if ov a b \<and> pr a b
      then (case cb a b s of (a1, b1, s1) \<Rightarrow>
             (case collide_sprite ov pr cb a1 bs s1 of (a2, bs2, s2) \<Rightarrow> (a2, b1 # bs2, s2)))
      else (case collide_sprite ov pr cb a bs s of (a2, bs2, s2) \<Rightarrow> (a2, b # bs2, s2)))"

fun collide_groups ::
  "('a \<Rightarrow> 'b \<Rightarrow> bool) \<Rightarrow> ('a \<Rightarrow> 'b \<Rightarrow> bool) \<Rightarrow> ('a \<Rightarrow> 'b \<Rightarrow> 's \<Rightarrow> 'a \<times> 'b \<times> 's)
    \<Rightarrow> 'a list \<Rightarrow> 'b list \<Rightarrow> 's \<Rightarrow> 'a list \<times> 'b list \<times> 's" where
  "collide_groups ov pr cb [] bs s = ([], bs, s)"
| "collide_groups ov pr cb (a # as) bs s =
     (case collide_sprite ov pr cb a bs s of (a1, bs1, s1) \<Rightarrow>
       (case collide_groups ov pr cb as bs1 s1 of (as2, bs2, s2) \<Rightarrow> (a1 # as2, bs2, s2)))"

text \<open>A call without a \<open>processCallback\<close> (\<open>null\<close>) gates nothing.\<close>

definition no_process :: "'a \<Rightarrow> 'b \<Rightarrow> bool" where
  "no_process a b = True"

section \<open>The level (\<open>Lilja.Level\<close>)\<close>

record tilemap =
  map_layers :: "(string \<times> tile list) list"
  map_objects :: "(string \<times> mapobj list) list"

record audio =
  audio_key :: string
  loop :: bool
  volume :: rat
  playing :: bool

datatype listener = BeginIntro | StartMission

text \<open>A signal's bindings: the listener, and whether it was added with \<open>addOnce\<close>.\<close>

type_synonym signal = "(listener \<times> bool) list"

record dialogue =
  started :: "string jsref"
  onFinished :: signal

record flashtext =
  text_x :: rat
  text_y :: rat
  content :: string
  anchor :: rat
  fixedToCamera :: bool
  visible :: bool

record timer =
  autoDestroy :: bool
  delay :: nat
  repeatCount :: nat
  running :: bool

text \<open>
  The properties of a level. \<open>name\<close>, \<open>map\<close>, \<open>mapLayer\<close> and \<open>enemies\<close> are assigned by
  the constructor; the others hold \<open>undefined\<close> until an operation assigns them.
  \<open>walks\<close> are the \<open>onComplete\<close> signals of the walk tweens that \<open>intro\<close> started and that
  have not completed: the engine holds them, the level keeps no property for them.
\<close>

record level =
  name :: string
  tmap :: tilemap
  mapLayer :: "layer jsref"
  enemies :: "enemy list"
  player :: "player jsref"
  bullets :: "bullet list jsref"
  giblets :: "bullet list jsref"
  layerBg :: "layer jsref"
  introMusic :: "audio jsref"
  bgMusic :: "audio jsref"
  dialogue :: "dialogue jsref"
  flash :: "flashtext jsref"
  flashTimer :: "timer jsref"
  walks :: "signal list"

text \<open>\<open>settings: { zombieID: 11 }\<close>\<close>

definition zombieID :: nat where
  "zombieID = 11"

text \<open>
  \<open>Lilja.Level = function(game, name)\<close>. \<open>this.game.add.tilemap(name)\<close> is the engine's:
  the tilemap it returns is the parameter \<open>tm\<close>.
\<close>

definition new_Level :: "tilemap \<Rightarrow> string \<Rightarrow> level" where
  "new_Level tm nm =
     \<lparr> name = nm, tmap = tm, mapLayer = Null, enemies = [],
       player = Undefined, bullets = Undefined, giblets = Undefined, layerBg = Undefined,
       introMusic = Undefined, bgMusic = Undefined, dialogue = Undefined,
       flash = Undefined, flashTimer = Undefined, walks = [] \<rparr>"

subsection \<open>The collision callbacks\<close>

text \<open>\<open>_playerEnemyProcess\<close>: \<open>return !player.invincible;\<close>\<close>

definition playerEnemyProcess :: "player \<Rightarrow> enemy \<Rightarrow> bool" where
  "playerEnemyProcess p e = (\<not> invincible p)"

text \<open>\<open>_playerEnemyCollision\<close>: \<open>player.hit(enemy.damage);\<close>\<close>

definition playerEnemyCollision ::
  "ext \<Rightarrow> player \<Rightarrow> enemy \<Rightarrow> call list \<Rightarrow> player \<times> enemy \<times> call list" where
  "playerEnemyCollision x p e t =
     (player_hit x (damage e) p, e, t @ [PlayerHit p (damage e)])"

text \<open>\<open>_bulletWallCollision\<close>: \<open>bullet.hit(wall);\<close>\<close>

definition level_bulletWallCollision ::
  "ext \<Rightarrow> bullet \<Rightarrow> tile \<Rightarrow> call list \<Rightarrow> bullet \<times> tile \<times> call list" where
  "level_bulletWallCollision x b w t =
     (bullet_hit x (Wall w) b, w, t @ [BulletHit b (Wall w)])"

text \<open>\<open>_bulletEnemyCollision\<close>: \<open>enemy.hit(bullet); bullet.hit(enemy);\<close>\<close>

definition level_bulletEnemyCollision ::
  "ext \<Rightarrow> bullet \<Rightarrow> enemy \<Rightarrow> call list \<Rightarrow> bullet \<times> enemy \<times> call list" where
  "level_bulletEnemyCollision x b e t =
     (let e1 = enemy_hit x b e;
          b1 = bullet_hit x (Foe e1) b
      in (b1, e1, t @ [EnemyHit e b, BulletHit b (Foe e1)]))"

subsection \<open>\<open>handleCollisions\<close>\<close>

text \<open>
  The six calls of \<open>this.game.physics.arcade.collide\<close>, one function each, in the order
  of the source. A group that is \<open>undefined\<close> or \<open>null\<close> has no member, so the engine
  finds no pair. A call without a callback resolves the physical blocking only, which
  changes none of the modelled properties.
\<close>

definition collide_player_enemies :: "ext \<Rightarrow> level \<Rightarrow> level \<times> call list" where
  "collide_player_enemies x l =
     (let t = [Collide (FieldArg ''player'' (presence_of (player l))) (FieldArg ''enemies'' IsObject)
                 (Some ''_playerEnemyCollision'') (Some ''_playerEnemyProcess'')]
      in case player l of
           Obj p \<Rightarrow>
             (case collide_sprite (overlap_player_enemy x) playerEnemyProcess
                     (playerEnemyCollision x) p (enemies l) t of
                (p1, es1, t1) \<Rightarrow> (l\<lparr>player := Obj p1, enemies := es1\<rparr>, t1))
         | _ \<Rightarrow> (l, t))"

definition collide_bullets_mapLayer :: "ext \<Rightarrow> level \<Rightarrow> level \<times> call list" where
  "collide_bullets_mapLayer x l =
     (let t = [Collide (FieldArg ''bullets'' (presence_of (bullets l)))
                 (FieldArg ''mapLayer'' (presence_of (mapLayer l)))
                 (Some ''_bulletWallCollision'') None]
      in case (bullets l, mapLayer l) of
           (Obj bs, Obj lay) \<Rightarrow>
             (case collide_groups (overlap_bullet_tile x) no_process
                     (level_bulletWallCollision x) bs (tiles lay) t of
                (bs1, ws1, t1) \<Rightarrow> (l\<lparr>bullets := Obj bs1\<rparr>, t1))
         | _ \<Rightarrow> (l, t))"

definition collide_bullets_enemies :: "ext \<Rightarrow> level \<Rightarrow> level \<times> call list" where
  "collide_bullets_enemies x l =
     (let t = [Collide (FieldArg ''bullets'' (presence_of (bullets l))) (FieldArg ''enemies'' IsObject)
                 (Some ''_bulletEnemyCollision'') None]
      in case bullets l of
           Obj bs \<Rightarrow>
             (case collide_groups (overlap_bullet_enemy x) no_process
                     (level_bulletEnemyCollision x) bs (enemies l) t of
                (bs1, es1, t1) \<Rightarrow> (l\<lparr>bullets := Obj bs1, enemies := es1\<rparr>, t1))
         | _ \<Rightarrow> (l, t))"

definition collide_player_mapLayer :: "level \<Rightarrow> level \<times> call list" where
  "collide_player_mapLayer l =
     (l, [Collide (FieldArg ''player'' (presence_of (player l)))
            (FieldArg ''mapLayer'' (presence_of (mapLayer l))) None None])"

definition collide_enemies_mapLayer :: "level \<Rightarrow> level \<times> call list" where
  "collide_enemies_mapLayer l =
     (l, [Collide (FieldArg ''enemies'' IsObject)
            (FieldArg ''mapLayer'' (presence_of (mapLayer l))) None None])"

definition collide_giblets_mapLayer :: "level \<Rightarrow> level \<times> call list" where
  "collide_giblets_mapLayer l =
     (l, [Collide (FieldArg ''giblets'' (presence_of (giblets l)))
            (FieldArg ''mapLayer'' (presence_of (mapLayer l))) None None])"

definition handleCollisions :: "ext \<Rightarrow> level \<Rightarrow> level \<times> call list" where
  "handleCollisions x l =
     (case collide_player_enemies x l of (l1, t1) \<Rightarrow>
      case collide_bullets_mapLayer x l1 of (l2, t2) \<Rightarrow>
      case collide_bullets_enemies x l2 of (l3, t3) \<Rightarrow>
      case collide_player_mapLayer l3 of (l4, t4) \<Rightarrow>
      case collide_enemies_mapLayer l4 of (l5, t5) \<Rightarrow>
      case collide_giblets_mapLayer l5 of (l6, t6) \<Rightarrow>
        (l6, t1 @ t2 @ t3 @ t4 @ t5 @ t6))"

text \<open>
  The \<open>collide\<close> calls of a trace with their two arguments, in order; the passes are
  the names of the two groups.
\<close>

fun collides :: "call list \<Rightarrow> (arg \<times> arg) list" where
  "collides [] = []"
| "collides (Collide a b cb pr # t) = (a, b) # collides t"
| "collides (c # t) = collides t"

fun arg_name :: "arg \<Rightarrow> string" where
  "arg_name (FieldArg f p) = f"

definition passes :: "call list \<Rightarrow> (string \<times> string) list" where
  "passes t = map (\<lambda>ab. (arg_name (fst ab), arg_name (snd ab))) (collides t)"

text \<open>
  The calls of \<open>player.hit\<close>, and the calls a bullet is part of: \<open>bullet.hit\<close> on a wall or
  on an enemy, and \<open>enemy.hit\<close> with the bullet.
\<close>

fun is_player_hit :: "call \<Rightarrow> bool" where
  "is_player_hit (PlayerHit p d) = True"
| "is_player_hit c = False"


subsection \<open>\<open>create\<close> and \<open>createObjects\<close>\<close>

text \<open>
  The engine's \<open>Tilemap.createLayer\<close>: the layer of that name, or \<open>undefined\<close> when the
  tilemap has none.
\<close>

definition createLayer :: "tilemap \<Rightarrow> string \<Rightarrow> layer jsref" where
  "createLayer tm n =
     (case map_of (map_layers tm) n of
        Some ts \<Rightarrow> Obj \<lparr> layer_name = n, tiles = ts \<rparr>
      | None \<Rightarrow> Undefined)"

text \<open>
  The engine's \<open>Tilemap.createFromObjects(name, gid, ...)\<close>: one sprite of the given class
  for every object of the object layer \<open>name\<close> whose gid is \<open>gid\<close>, and none when the
  tilemap has no such object layer.
\<close>

definition createFromObjects :: "ext \<Rightarrow> tilemap \<Rightarrow> string \<Rightarrow> nat \<Rightarrow> enemy list" where
  "createFromObjects x tm n g =
     (case map_of (map_objects tm) n of
        Some os \<Rightarrow> map (new_Zombie x) (filter (\<lambda>ob. gid ob = g) os)
      | None \<Rightarrow> [])"

definition create :: "level \<Rightarrow> error + (level \<times> call list)" where
  "create l =
     (case createLayer (tmap l) ''bg'' of
        Obj lay \<Rightarrow>
          Inr (l\<lparr> mapLayer := Obj lay,
                 introMusic := Obj \<lparr> audio_key = ''intromusic'', loop = False,
                                      volume = 1, playing = False \<rparr>,
                 bgMusic := Obj \<lparr> audio_key = ''leveldrums'', loop = True,
                                   volume = 6 / 10, playing = False \<rparr> \<rparr>,
               [AddTilesetImage ''tiles'' ''tiles'', CreateLayer ''bg'', ResizeWorld,
                SetCollisionByExclusion [1, 10] True
                  (FieldArg ''layerBg'' (presence_of (layerBg l))) True,
                SendToBack (FieldArg ''mapLayer'' IsObject),
                AddAudio ''intromusic'', AddAudio ''leveldrums''])
      | _ \<Rightarrow> Inl (TypeError ''this.mapLayer.resizeWorld''))"

text \<open>
  \<open>createObjects(player)\<close>. The argument is the player and, beside it, what its
  \<open>bullets\<close> property holds: the pool is a group of its own, and the level's \<open>bullets\<close>
  is the reference the collision passes work on. The result is the state, the value
  returned (\<open>this.enemies\<close>) and the trace.
\<close>

definition createObjects ::
  "ext \<Rightarrow> (player \<times> bullet list jsref) jsref \<Rightarrow> level
    \<Rightarrow> error + (level \<times> enemy list \<times> call list)" where
  "createObjects x who l =
     (case who of
        Obj (p, bs) \<Rightarrow>
          (let es = enemies l @ createFromObjects x (tmap l) ''spawnpoints'' zombieID;
               es1 = map (\<lambda>e. e\<lparr>chase := Obj PlayerRef\<rparr>) es;
               es2 = map (\<lambda>e. e\<lparr>ground := mapLayer l\<rparr>) es1
           in Inr (l\<lparr> player := Obj p, bullets := bs, enemies := es2 \<rparr>, es2,
                   [CreateFromObjects ''spawnpoints'' zombieID ''sprites'',
                    SetAll ''chase'' (FieldArg ''player'' IsObject),
                    SetAll ''ground'' (FieldArg ''mapLayer'' (presence_of (mapLayer l)))]))
      | _ \<Rightarrow> Inl (TypeError ''player.bullets''))"

subsection \<open>The intro sequence\<close>

definition intro :: "level \<Rightarrow> error + (level \<times> call list)" where
  "intro l =
     (case introMusic l of
        Obj a \<Rightarrow>
          (case player l of
             Obj p \<Rightarrow>
               Inr (l\<lparr> introMusic := Obj (a\<lparr>playing := True\<rparr>),
                      player := Obj (p\<lparr>disableControls := True, animation := ''walk''\<rparr>),
                      walks := walks l @ [[(BeginIntro, False)]] \<rparr>,
                    [AudioPlay ''introMusic'', AnimationPlay ''walk'',
                     TweenFrom (- 30) 2000 Linear True])
           | _ \<Rightarrow> Inl (TypeError ''this.player.disableControls''))
      | _ \<Rightarrow> Inl (TypeError ''this.introMusic.play''))"

text \<open>\<open>_beginIntro\<close>\<close>

definition beginIntro :: "level \<Rightarrow> error + (level \<times> call list)" where
  "beginIntro l =
     (case player l of
        Obj p \<Rightarrow>
          Inr (l\<lparr> player := Obj (p\<lparr>animation := ''stand''\<rparr>),
                 dialogue := Obj \<lparr> started = Obj (name l @ ''_intro''),
                                    onFinished = [(StartMission, True)] \<rparr> \<rparr>,
               [AnimationPlay ''stand'', DialogueStart (name l @ ''_intro'')])
      | _ \<Rightarrow> Inl (TypeError ''this.player.animations''))"

text \<open>\<open>_showMissionStartText\<close>\<close>

definition showMissionStartText :: "ext \<Rightarrow> level \<Rightarrow> level \<times> call list" where
  "showMissionStartText x l =
     (l\<lparr> flash := Obj \<lparr> text_x = of_nat (camera_width x) / 2,
                         text_y = of_nat (camera_height x) / 2,
                         content = ''MISSION START'', anchor = 1 / 2,
                         fixedToCamera = True, visible = True \<rparr>,
         flashTimer := Obj \<lparr> autoDestroy = False, delay = 600, repeatCount = 5,
                              running = True \<rparr> \<rparr>,
      [AddText (of_nat (camera_width x) / 2) (of_nat (camera_height x) / 2) ''MISSION START'',
       TimerCreate False, TimerRepeat 600 5, TimerStart])"

text \<open>\<open>_startMission\<close>\<close>

definition startMission :: "ext \<Rightarrow> level \<Rightarrow> error + (level \<times> call list)" where
  "startMission x l =
     (case player l of
        Obj p \<Rightarrow>
          (case introMusic l of
             Obj a \<Rightarrow>
               (case bgMusic l of
                  Obj b \<Rightarrow>
                    (case showMissionStartText x
                            (l\<lparr> player := Obj (player_makeHP x (p\<lparr>disableControls := False\<rparr>)),
                               introMusic := Obj (a\<lparr>playing := False\<rparr>),
                               bgMusic := Obj (b\<lparr>playing := True\<rparr>) \<rparr>) of
                       (l1, t1) \<Rightarrow>
                         Inr (l1, [MakeHP, AudioStop ''introMusic'', AudioPlay ''bgMusic''] @ t1))
                | _ \<Rightarrow> Inl (TypeError ''this.bgMusic.play''))
           | _ \<Rightarrow> Inl (TypeError ''this.introMusic.stop''))
      | _ \<Rightarrow> Inl (TypeError ''this.player.disableControls''))"

subsection \<open>Signals and the timer\<close>

text \<open>
  Modelled from the spec: the engine's deferred callbacks. A signal runs its listeners
  when it fires, and drops the ones added with \<open>addOnce\<close> (the single-shot
  \<open>onFinished\<close> of the dialogue playback); a signal nobody listens to is a no-op. A
  repeating timer fires its callback exactly \<open>count\<close> times, then stops.
\<close>

fun run_listener :: "ext \<Rightarrow> listener \<Rightarrow> level \<Rightarrow> error + (level \<times> call list)" where
  "run_listener x BeginIntro l = beginIntro l"
| "run_listener x StartMission l = startMission x l"

fun run_listeners :: "ext \<Rightarrow> listener list \<Rightarrow> level \<Rightarrow> error + (level \<times> call list)" where
  "run_listeners x [] l = Inr (l, [])"
| "run_listeners x (f # fs) l =
     (case run_listener x f l of
        Inl e \<Rightarrow> Inl e
      | Inr (l1, t1) \<Rightarrow>
          (case run_listeners x fs l1 of
             Inl e \<Rightarrow> Inl e
           | Inr (l2, t2) \<Rightarrow> Inr (l2, t1 @ t2)))"

definition keep_bindings :: "signal \<Rightarrow> signal" where
  "keep_bindings sg = filter (\<lambda>b. \<not> snd b) sg"

text \<open>The walk tween that started first completes: its \<open>onComplete\<close> fires.\<close>

definition walkComplete :: "ext \<Rightarrow> level \<Rightarrow> error + (level \<times> call list)" where
  "walkComplete x l =
     (case walks l of
        [] \<Rightarrow> Inr (l, [])
      | sg # rest \<Rightarrow> run_listeners x (map fst sg) (l\<lparr>walks := rest\<rparr>))"

text \<open>The dialogue's \<open>onFinished\<close> fires.\<close>

definition dialogueFinished :: "ext \<Rightarrow> level \<Rightarrow> error + (level \<times> call list)" where
  "dialogueFinished x l =
     (case dialogue l of
        Obj d \<Rightarrow>
          run_listeners x (map fst (onFinished d))
            (l\<lparr>dialogue := Obj (d\<lparr>onFinished := keep_bindings (onFinished d)\<rparr>)\<rparr>)
      | _ \<Rightarrow> Inr (l, []))"

text \<open>
  The flash timer fires: \<open>function() { this._flash.visible = !this._flash.visible; }\<close>.
\<close>

definition flashTick :: "level \<Rightarrow> error + (level \<times> call list)" where
  "flashTick l =
     (case flashTimer l of
        Obj tm \<Rightarrow>
          (if running tm \<and> 0 < repeatCount tm
           then (case flash l of
                   Obj f \<Rightarrow>
                     Inr (l\<lparr> flash := Obj (f\<lparr>visible := \<not> visible f\<rparr>),
                            flashTimer := Obj (tm\<lparr> repeatCount := repeatCount tm - 1,
                                                   running := (1 < repeatCount tm) \<rparr>) \<rparr>, [])
                 | _ \<Rightarrow> Inl (TypeError ''this._flash.visible''))
           else Inr (l, []))
      | _ \<Rightarrow> Inr (l, []))"

subsection \<open>Runs of a level\<close>

text \<open>
  What can happen to a level after its construction: a call of one of its methods, or
  one of the engine's deferred callbacks. A run stops at the first error.
\<close>

datatype op =
    OpCreate
  | OpCreateObjects "(player \<times> bullet list jsref) jsref"
  | OpHandleCollisions
  | OpIntro
  | OpWalkComplete
  | OpDialogueFinished
  | OpFlashTick

fun step :: "ext \<Rightarrow> op \<Rightarrow> level \<Rightarrow> error + (level \<times> call list)" where
  "step x OpCreate l = create l"
| "step x (OpCreateObjects who) l =
     (case createObjects x who l of Inl e \<Rightarrow> Inl e | Inr (l1, es, t) \<Rightarrow> Inr (l1, t))"
| "step x OpHandleCollisions l = Inr (handleCollisions x l)"
| "step x OpIntro l = intro l"
| "step x OpWalkComplete l = walkComplete x l"
| "step x OpDialogueFinished l = dialogueFinished x l"
| "step x OpFlashTick l = flashTick l"

fun run :: "ext \<Rightarrow> op list \<Rightarrow> level \<Rightarrow> error + (level \<times> call list)" where
  "run x [] l = Inr (l, [])"
| "run x (a # as) l =
     (case step x a l of
        Inl e \<Rightarrow> Inl e
      | Inr (l1, t1) \<Rightarrow>
          (case run x as l1 of
             Inl e \<Rightarrow> Inl e
           | Inr (l2, t2) \<Rightarrow> Inr (l2, t1 @ t2)))"

section \<open>The main state (\<open>Lilja.Main\<close>)\<close>

text \<open>
  \<open>_running\<close> is assigned by \<open>create\<close> only, which also assigns every other property
  \<open>update\<close> reads: they are plain values here, read only when \<open>_running\<close> is truthy.
\<close>

datatype textval = TextString string | TextNumber nat

record main =
  running_flag :: "bool jsref"
  fpsCounter_text :: textval
  main_player :: player
  main_enemies :: "enemy list"
  main_bullets :: "bullet list"
  layerTerrain :: layer

definition decay_tween :: tween where
  "decay_tween = \<lparr> to_x = 0, to_y = 0, duration = 200, ease = Linear, autoStart = True,
                   onComplete = [DestroyBullet] \<rparr>"

text \<open>\<open>_bulletWallCollision\<close> of the main state.\<close>

definition main_bulletWallCollision ::
  "bullet \<Rightarrow> tile \<Rightarrow> call list \<Rightarrow> bullet \<times> tile \<times> call list" where
  "main_bulletWallCollision b w t =
     (b\<lparr> frameName := ''bang'',
         bullet_body := (bullet_body b)\<lparr>enable := False\<rparr>,
         scale_tweens := scale_tweens b @ [decay_tween] \<rparr>,
      w, t @ [AddTween decay_tween])"

text \<open>\<open>_bulletEnemyCollision\<close> of the main state.\<close>

definition main_bulletEnemyCollision ::
  "ext \<Rightarrow> bullet \<Rightarrow> enemy \<Rightarrow> call list \<Rightarrow> bullet \<times> enemy \<times> call list" where
  "main_bulletEnemyCollision x b e t =
     (b\<lparr> frameName := ''bang'',
         bullet_body := (bullet_body b)\<lparr>enable := False\<rparr>,
         scale_tweens := scale_tweens b @ [decay_tween] \<rparr>,
      enemy_onHit x b e,
      t @ [EnemyOnHit e b, AddTween decay_tween])"

text \<open>\<open>update\<close>; \<open>fps\<close> is the engine's \<open>this.game.time.fps\<close>.\<close>

definition update :: "ext \<Rightarrow> nat \<Rightarrow> main \<Rightarrow> main \<times> call list" where
  "update x fps m =
     (if \<not> truthy (running_flag m) then (m, [])
      else
        (let t0 = [Collide (FieldArg ''player'' IsObject) (FieldArg ''layerTerrain'' IsObject)
                     None None,
                   Collide (FieldArg ''enemies'' IsObject) (FieldArg ''layerTerrain'' IsObject)
                     None None,
                   Collide (FieldArg ''bullets'' IsObject) (FieldArg ''layerTerrain'' IsObject)
                     (Some ''_bulletWallCollision'') None]
         in case collide_groups (overlap_bullet_tile x) no_process main_bulletWallCollision
                   (main_bullets m) (tiles (layerTerrain m)) t0 of
              (bs1, ws1, t1) \<Rightarrow>
                (case collide_groups (overlap_bullet_enemy x) no_process
                        (main_bulletEnemyCollision x) bs1 (main_enemies m)
                        (t1 @ [Collide (FieldArg ''bullets'' IsObject)
                                 (FieldArg ''enemies'' IsObject)
                                 (Some ''_bulletEnemyCollision'') None]) of
                   (bs2, es2, t2) \<Rightarrow>
                     (m\<lparr> main_bullets := bs2, main_enemies := es2,
                         fpsCounter_text := TextNumber fps \<rparr>, t2))))"

section \<open>Observations and sample inputs\<close>

text \<open>
  Whether the controls of the level's player are disabled, and how many repetitions its
  flash timer has left; \<open>undefined\<close> when the level has no player or no timer.
\<close>

definition controls_disabled :: "level \<Rightarrow> bool jsref" where
  "controls_disabled l =
     (case player l of Obj p \<Rightarrow> Obj (disableControls p) | Null \<Rightarrow> Null | Undefined \<Rightarrow> Undefined)"

definition flashes_left :: "level \<Rightarrow> nat jsref" where
  "flashes_left l =
     (case flashTimer l of Obj tm \<Rightarrow> Obj (repeatCount tm) | Null \<Rightarrow> Null
      | Undefined \<Rightarrow> Undefined)"

text \<open>The spawn data of the level's enemy marker: the objects \<open>createObjects\<close> asks for.\<close>

definition spawn_data :: "tilemap \<Rightarrow> mapobj list" where
  "spawn_data tm =
     (case map_of (map_objects tm) ''spawnpoints'' of
        Some os \<Rightarrow> filter (\<lambda>ob. gid ob = zombieID) os
      | None \<Rightarrow> [])"

text \<open>A bullet in the disabled state the main state's handlers leave it in.\<close>

definition disabled :: "bullet \<Rightarrow> bool" where
  "disabled b = (frameName b = ''bang'' \<and> \<not> enable (bullet_body b))"

text \<open>
  Modelled from the spec: a sample of the collaborators, for evaluating the model at
  concrete inputs. Two actors overlap when both bodies are enabled and their bounds
  intersect (tiles are 32 units wide); the methods of the actor classes follow the table
  of the collision rules: an enemy hit by a bullet loses the bullet's damage, a bullet
  that hits is disabled, a player that is hit loses the damage and is invincible for a
  while.
\<close>

definition intersects :: "int \<times> int \<times> int \<times> int \<Rightarrow> int \<times> int \<times> int \<times> int \<Rightarrow> bool" where
  "intersects r s =
     (case r of (x1, y1, w1, h1) \<Rightarrow>
      case s of (x2, y2, w2, h2) \<Rightarrow>
        x1 < x2 + w2 \<and> x2 < x1 + w1 \<and> y1 < y2 + h2 \<and> y2 < y1 + h1)"

definition sample_ext :: ext where
  "sample_ext =
     \<lparr> overlap_player_enemy = (\<lambda>p e. enable (player_body p) \<and> enable (enemy_body e)
          \<and> intersects (bounds (player_body p)) (bounds (enemy_body e))),
       overlap_bullet_tile = (\<lambda>b w. enable (bullet_body b)
          \<and> intersects (bounds (bullet_body b)) (32 * tile_x w, 32 * tile_y w, 32, 32)),
       overlap_bullet_enemy = (\<lambda>b e. enable (bullet_body b) \<and> enable (enemy_body e)
          \<and> intersects (bounds (bullet_body b)) (bounds (enemy_body e))),
       player_hit = (\<lambda>d p. p\<lparr>player_health := player_health p - d, invincible := True\<rparr>),
       player_makeHP = (\<lambda>p. p),
       bullet_hit = (\<lambda>tg b. b\<lparr>frameName := ''bang'',
                                bullet_body := (bullet_body b)\<lparr>enable := False\<rparr>\<rparr>),
       enemy_hit = (\<lambda>b e. e\<lparr>health := health e - bullet_damage b\<rparr>),
       enemy_onHit = (\<lambda>b e. e\<lparr>health := health e - bullet_damage b\<rparr>),
       new_Zombie = (\<lambda>ob. \<lparr> damage = 5, health = 9, chase = Undefined, ground = Undefined,
                             enemy_body = \<lparr>enable = True, bounds = (obj_x ob, obj_y ob, 32, 32)\<rparr> \<rparr>),
       camera_width = 800,
       camera_height = 600 \<rparr>"

definition sample_map :: tilemap where
  "sample_map =
     \<lparr> map_layers = [(''bg'', [\<lparr>index = 2, tile_x = 0, tile_y = 14\<rparr>])],
       map_objects = [(''spawnpoints'', [\<lparr>gid = 11, obj_x = 612, obj_y = 400\<rparr>,
                                          \<lparr>gid = 3, obj_x = 40, obj_y = 400\<rparr>])] \<rparr>"

text \<open>A tilemap with the background layer and no spawn data.\<close>

definition bare_map :: tilemap where
  "bare_map = \<lparr> map_layers = [(''bg'', [])], map_objects = [] \<rparr>"

text \<open>The level of that tilemap after \<open>create\<close>.\<close>

definition bare_level :: level where
  "bare_level =
     (new_Level bare_map ''level01'')
       \<lparr> mapLayer := Obj \<lparr>layer_name = ''bg'', tiles = []\<rparr>,
         introMusic := Obj \<lparr>audio_key = ''intromusic'', loop = False, volume = 1,
                            playing = False\<rparr>,
         bgMusic := Obj \<lparr>audio_key = ''leveldrums'', loop = True, volume = 6 / 10,
                         playing = False\<rparr> \<rparr>"

definition sample_player :: player where
  "sample_player =
     \<lparr> invincible = False, disableControls = False, animation = ''stand'',
       player_health = 10,
       player_body = \<lparr>enable = True, bounds = (600, 400, 32, 32)\<rparr> \<rparr>"

definition sample_bullet :: bullet where
  "sample_bullet =
     \<lparr> frameName = ''bullet'',
       bullet_body = \<lparr>enable = True, bounds = (620, 410, 8, 8)\<rparr>,
       bullet_damage = 3, scale_tweens = [] \<rparr>"

definition sample_enemy :: enemy where
  "sample_enemy =
     \<lparr> damage = 5, health = 9, chase = Obj PlayerRef, ground = Undefined,
       enemy_body = \<lparr>enable = True, bounds = (612, 400, 32, 32)\<rparr> \<rparr>"

definition sample_tile :: tile where
  "sample_tile = \<lparr>index = 2, tile_x = 0, tile_y = 14\<rparr>"

text \<open>The sample bullet after one hit in the main state.\<close>

definition spent_bullet :: bullet where
  "spent_bullet =
     \<lparr> frameName = ''bang'',
       bullet_body = \<lparr>enable = False, bounds = (620, 410, 8, 8)\<rparr>,
       bullet_damage = 3, scale_tweens = [decay_tween] \<rparr>"

text \<open>A level and a main state in play, with the sample actors.\<close>

definition sample_level :: level where
  "sample_level =
     (new_Level sample_map ''level01'')
       \<lparr> mapLayer := Obj \<lparr>layer_name = ''bg'', tiles = [sample_tile]\<rparr>,
         enemies := [sample_enemy],
         player := Obj sample_player,
         bullets := Obj [sample_bullet] \<rparr>"











definition sample_main :: main where
  "sample_main =
     \<lparr> running_flag = Obj False, fpsCounter_text = TextString ''100 FPS'',
       main_player = sample_player, main_enemies = [sample_enemy],
       main_bullets = [sample_bullet],
       layerTerrain = \<lparr>layer_name = ''terrain'', tiles = [sample_tile]\<rparr> \<rparr>"


text \<open>
  The sample level while the player walks in (after \<open>create\<close>, \<open>createObjects\<close> and
  \<open>intro\<close>, the walk tween just completed), and while the intro dialogue plays.
\<close>

definition walking_level :: level where
  "walking_level =
     sample_level
       \<lparr> player := Obj (sample_player\<lparr>disableControls := True, animation := ''walk''\<rparr>),
         introMusic := Obj \<lparr>audio_key = ''intromusic'', loop = False, volume = 1,
                            playing = True\<rparr>,
         bgMusic := Obj \<lparr>audio_key = ''leveldrums'', loop = True, volume = 6 / 10,
                         playing = False\<rparr> \<rparr>"

definition awaiting_level :: level where
  "awaiting_level =
     walking_level
       \<lparr> player := Obj (sample_player\<lparr>disableControls := True, animation := ''stand''\<rparr>),
         dialogue := Obj \<lparr>started = Obj ''level01_intro'',
                          onFinished = [(StartMission, True)]\<rparr> \<rparr>"

text \<open>The level's life up to the end of the intro dialogue.\<close>

definition intro_ops :: "op list" where
  "intro_ops =
     [OpCreate, OpCreateObjects (Obj (sample_player, Obj [sample_bullet])), OpIntro,
      OpWalkComplete, OpDialogueFinished]"

definition after_intro :: "error + (level \<times> call list)" where
  "after_intro = run sample_ext intro_ops (new_Level sample_map ''level01'')"

section \<open>The collision sweep\<close>

lemma collides_append: "collides (s @ t) = collides s @ collides t"
  by (induction s rule: collides.induct) simp_all

text \<open>What every callback keeps, the whole sweep keeps.\<close>

lemma collide_sprite_keeps:
  assumes "\<And>a b s. f (snd (snd (cb a b s))) = f s"
  shows "f (snd (snd (collide_sprite ov pr cb a bs s))) = f s"
proof (induction bs arbitrary: a s)
  case Nil
  show ?case by simp
next
  case (Cons b bs)
  show ?case
  proof (cases "ov a b \<and> pr a b")
    case True
    obtain a1 b1 s1 where c: "cb a b s = (a1, b1, s1)" by (cases "cb a b s")
    obtain a2 bs2 s2 where r: "collide_sprite ov pr cb a1 bs s1 = (a2, bs2, s2)"
      by (cases "collide_sprite ov pr cb a1 bs s1")
    have "f s2 = f s1" using Cons [of a1 s1] r by simp
    moreover have "f s1 = f s" using assms [of a b s] c by simp
    ultimately show ?thesis using True c r by simp
  next
    case False
    obtain a2 bs2 s2 where r: "collide_sprite ov pr cb a bs s = (a2, bs2, s2)"
      by (cases "collide_sprite ov pr cb a bs s")
    have "f s2 = f s" using Cons [of a s] r by simp
    then show ?thesis using False r by auto
  qed
qed

lemma collide_groups_keeps:
  assumes "\<And>a b s. f (snd (snd (cb a b s))) = f s"
  shows "f (snd (snd (collide_groups ov pr cb as bs s))) = f s"
proof (induction as arbitrary: bs s)
  case Nil
  show ?case by simp
next
  case (Cons a as)
  obtain a1 bs1 s1 where c: "collide_sprite ov pr cb a bs s = (a1, bs1, s1)"
    by (cases "collide_sprite ov pr cb a bs s")
  obtain as2 bs2 s2 where r: "collide_groups ov pr cb as bs1 s1 = (as2, bs2, s2)"
    by (cases "collide_groups ov pr cb as bs1 s1")
  have "f s1 = f s" using collide_sprite_keeps [of f cb ov pr a bs s, OF assms] c by simp
  moreover have "f s2 = f s1" using Cons [of bs1 s1] r by simp
  ultimately show ?case using c r by simp
qed

text \<open>A pair that is not processed leaves everything as it is.\<close>

lemma collide_sprite_gated:
  assumes "\<And>b. b \<in> set bs \<Longrightarrow> \<not> (ov a b \<and> pr a b)"
  shows "collide_sprite ov pr cb a bs s = (a, bs, s)"
  using assms by (induction bs) auto

lemma collide_groups_gated:
  assumes "\<And>a b. a \<in> set as \<Longrightarrow> b \<in> set bs \<Longrightarrow> \<not> (ov a b \<and> pr a b)"
  shows "collide_groups ov pr cb as bs s = (as, bs, s)"
  using assms
proof (induction as)
  case Nil
  show ?case by simp
next
  case (Cons a as)
  have "collide_sprite ov pr cb a bs s = (a, bs, s)"
    by (rule collide_sprite_gated) (simp add: Cons.prems)
  moreover have "collide_groups ov pr cb as bs s = (as, bs, s)"
    by (rule Cons.IH) (simp add: Cons.prems)
  ultimately show ?case by simp
qed

lemma collides_playerEnemyCollision:
  "collides (snd (snd (playerEnemyCollision x p e t))) = collides t"
  by (simp add: playerEnemyCollision_def collides_append)

lemma collides_level_bulletWallCollision:
  "collides (snd (snd (level_bulletWallCollision x b w t))) = collides t"
  by (simp add: level_bulletWallCollision_def collides_append)

lemma collides_level_bulletEnemyCollision:
  "collides (snd (snd (level_bulletEnemyCollision x b e t))) = collides t"
  by (simp add: level_bulletEnemyCollision_def collides_append Let_def)

lemma collides_collide_player_enemies:
  "collides (snd (collide_player_enemies x l)) =
     [(FieldArg ''player'' (presence_of (player l)), FieldArg ''enemies'' IsObject)]"
proof (cases "player l")
  case (Obj p)
  let ?t = "[Collide (FieldArg ''player'' IsObject) (FieldArg ''enemies'' IsObject)
                 (Some ''_playerEnemyCollision'') (Some ''_playerEnemyProcess'')]"
  obtain p1 es1 t1 where r: "collide_sprite (overlap_player_enemy x) playerEnemyProcess
          (playerEnemyCollision x) p (enemies l) ?t = (p1, es1, t1)"
    by (cases "collide_sprite (overlap_player_enemy x) playerEnemyProcess
          (playerEnemyCollision x) p (enemies l) ?t")
  have "collides (snd (snd (collide_sprite (overlap_player_enemy x) playerEnemyProcess
          (playerEnemyCollision x) p (enemies l) ?t))) = collides ?t"
    by (rule collide_sprite_keeps) (rule collides_playerEnemyCollision)
  then have "collides t1 = collides ?t" using r by simp
  then show ?thesis using Obj r
    by (simp add: collide_player_enemies_def)
qed (simp_all add: collide_player_enemies_def)

lemma collides_collide_bullets_mapLayer:
  "collides (snd (collide_bullets_mapLayer x l)) =
     [(FieldArg ''bullets'' (presence_of (bullets l)),
       FieldArg ''mapLayer'' (presence_of (mapLayer l)))]"
proof (cases "\<exists>bs lay. bullets l = Obj bs \<and> mapLayer l = Obj lay")
  case True
  then obtain bs lay where o: "bullets l = Obj bs" "mapLayer l = Obj lay" by blast
  let ?t = "[Collide (FieldArg ''bullets'' IsObject) (FieldArg ''mapLayer'' IsObject)
                 (Some ''_bulletWallCollision'') None]"
  obtain bs1 ws1 t1 where r: "collide_groups (overlap_bullet_tile x) no_process
          (level_bulletWallCollision x) bs (tiles lay) ?t = (bs1, ws1, t1)"
    by (cases "collide_groups (overlap_bullet_tile x) no_process
          (level_bulletWallCollision x) bs (tiles lay) ?t")
  have "collides (snd (snd (collide_groups (overlap_bullet_tile x) no_process
          (level_bulletWallCollision x) bs (tiles lay) ?t))) = collides ?t"
    by (rule collide_groups_keeps) (rule collides_level_bulletWallCollision)
  then have "collides t1 = collides ?t" using r by simp
  then show ?thesis using o r
    by (simp add: collide_bullets_mapLayer_def)
next
  case False
  then show ?thesis
    by (cases "bullets l"; cases "mapLayer l") (simp_all add: collide_bullets_mapLayer_def)
qed

lemma collides_collide_bullets_enemies:
  "collides (snd (collide_bullets_enemies x l)) =
     [(FieldArg ''bullets'' (presence_of (bullets l)), FieldArg ''enemies'' IsObject)]"
proof (cases "bullets l")
  case (Obj bs)
  let ?t = "[Collide (FieldArg ''bullets'' IsObject) (FieldArg ''enemies'' IsObject)
                 (Some ''_bulletEnemyCollision'') None]"
  obtain bs1 es1 t1 where r: "collide_groups (overlap_bullet_enemy x) no_process
          (level_bulletEnemyCollision x) bs (enemies l) ?t = (bs1, es1, t1)"
    by (cases "collide_groups (overlap_bullet_enemy x) no_process
          (level_bulletEnemyCollision x) bs (enemies l) ?t")
  have "collides (snd (snd (collide_groups (overlap_bullet_enemy x) no_process
          (level_bulletEnemyCollision x) bs (enemies l) ?t))) = collides ?t"
    by (rule collide_groups_keeps) (rule collides_level_bulletEnemyCollision)
  then have "collides t1 = collides ?t" using r by simp
  then show ?thesis using Obj r
    by (simp add: collide_bullets_enemies_def)
qed (simp_all add: collide_bullets_enemies_def)

text \<open>The properties a pass leaves alone.\<close>

lemma collide_player_enemies_frame:
  "bullets (fst (collide_player_enemies x l)) = bullets l"
  "mapLayer (fst (collide_player_enemies x l)) = mapLayer l"
  "giblets (fst (collide_player_enemies x l)) = giblets l"
  "layerBg (fst (collide_player_enemies x l)) = layerBg l"
  by (simp_all add: collide_player_enemies_def Let_def split: jsref.splits prod.splits)

lemma collide_bullets_mapLayer_frame:
  "player (fst (collide_bullets_mapLayer x l)) = player l"
  "enemies (fst (collide_bullets_mapLayer x l)) = enemies l"
  "mapLayer (fst (collide_bullets_mapLayer x l)) = mapLayer l"
  "giblets (fst (collide_bullets_mapLayer x l)) = giblets l"
  "layerBg (fst (collide_bullets_mapLayer x l)) = layerBg l"
  by (simp_all add: collide_bullets_mapLayer_def Let_def split: jsref.splits prod.splits)

lemma collide_bullets_enemies_frame:
  "player (fst (collide_bullets_enemies x l)) = player l"
  "mapLayer (fst (collide_bullets_enemies x l)) = mapLayer l"
  "giblets (fst (collide_bullets_enemies x l)) = giblets l"
  "layerBg (fst (collide_bullets_enemies x l)) = layerBg l"
  by (simp_all add: collide_bullets_enemies_def Let_def split: jsref.splits prod.splits)

lemma presence_bullets_collide_bullets_mapLayer:
  "presence_of (bullets (fst (collide_bullets_mapLayer x l))) = presence_of (bullets l)"
  by (simp add: collide_bullets_mapLayer_def Let_def split: jsref.splits prod.splits)

lemma presence_bullets_collide_bullets_enemies:
  "presence_of (bullets (fst (collide_bullets_enemies x l))) = presence_of (bullets l)"
  by (simp add: collide_bullets_enemies_def Let_def split: jsref.splits prod.splits)

lemma presence_player_collide_player_enemies:
  "presence_of (player (fst (collide_player_enemies x l))) = presence_of (player l)"
  by (simp add: collide_player_enemies_def Let_def split: jsref.splits prod.splits)

text \<open>\<open>handleCollisions\<close> as the composition of its passes.\<close>

lemma handleCollisions_state:
  "fst (handleCollisions x l) =
     fst (collide_bullets_enemies x (fst (collide_bullets_mapLayer x
       (fst (collide_player_enemies x l)))))"
  by (simp add: handleCollisions_def collide_player_mapLayer_def collide_enemies_mapLayer_def
      collide_giblets_mapLayer_def split: prod.splits)

lemma handleCollisions_trace:
  "snd (handleCollisions x l) =
     snd (collide_player_enemies x l)
     @ snd (collide_bullets_mapLayer x (fst (collide_player_enemies x l)))
     @ snd (collide_bullets_enemies x (fst (collide_bullets_mapLayer x
         (fst (collide_player_enemies x l)))))
     @ snd (collide_player_mapLayer (fst (handleCollisions x l)))
     @ snd (collide_enemies_mapLayer (fst (handleCollisions x l)))
     @ snd (collide_giblets_mapLayer (fst (handleCollisions x l)))"
  by (simp add: handleCollisions_def collide_player_mapLayer_def collide_enemies_mapLayer_def
      collide_giblets_mapLayer_def split: prod.splits)

lemma handleCollisions_frame:
  "mapLayer (fst (handleCollisions x l)) = mapLayer l"
  "giblets (fst (handleCollisions x l)) = giblets l"
  "layerBg (fst (handleCollisions x l)) = layerBg l"
  "presence_of (player (fst (handleCollisions x l))) = presence_of (player l)"
  by (simp_all add: handleCollisions_state collide_player_enemies_frame
      collide_bullets_mapLayer_frame collide_bullets_enemies_frame
      presence_player_collide_player_enemies)

lemma collides_handleCollisions:
  "collides (snd (handleCollisions x l)) =
     [(FieldArg ''player'' (presence_of (player l)), FieldArg ''enemies'' IsObject),
      (FieldArg ''bullets'' (presence_of (bullets l)),
       FieldArg ''mapLayer'' (presence_of (mapLayer l))),
      (FieldArg ''bullets'' (presence_of (bullets l)), FieldArg ''enemies'' IsObject),
      (FieldArg ''player'' (presence_of (player l)),
       FieldArg ''mapLayer'' (presence_of (mapLayer l))),
      (FieldArg ''enemies'' IsObject, FieldArg ''mapLayer'' (presence_of (mapLayer l))),
      (FieldArg ''giblets'' (presence_of (giblets l)),
       FieldArg ''mapLayer'' (presence_of (mapLayer l)))]"
proof -
  have "collides (snd (collide_player_mapLayer (fst (handleCollisions x l)))) =
          [(FieldArg ''player'' (presence_of (player l)),
            FieldArg ''mapLayer'' (presence_of (mapLayer l)))]"
    by (simp add: collide_player_mapLayer_def handleCollisions_frame)
  moreover have "collides (snd (collide_enemies_mapLayer (fst (handleCollisions x l)))) =
          [(FieldArg ''enemies'' IsObject, FieldArg ''mapLayer'' (presence_of (mapLayer l)))]"
    by (simp add: collide_enemies_mapLayer_def handleCollisions_frame)
  moreover have "collides (snd (collide_giblets_mapLayer (fst (handleCollisions x l)))) =
          [(FieldArg ''giblets'' (presence_of (giblets l)),
            FieldArg ''mapLayer'' (presence_of (mapLayer l)))]"
    by (simp add: collide_giblets_mapLayer_def handleCollisions_frame)
  ultimately show ?thesis
    by (subst handleCollisions_trace)
      (simp add: collides_append collides_collide_player_enemies
        collides_collide_bullets_mapLayer collides_collide_bullets_enemies
        collide_player_enemies_frame collide_bullets_mapLayer_frame
        presence_bullets_collide_bullets_mapLayer)
qed

text \<open>
  Claim C2. Every call of \<open>handleCollisions\<close> makes the overlap passes player against
  enemies, bullets against the map layer, bullets against enemies, player against the
  map layer, enemies against the map layer: they are its first five \<open>collide\<close> calls,
  in this order, whatever the state of the level, and each of them is made once. (The
  call made after them is the subject of claim C9.)
\<close>

theorem handleCollisions_pass_order:
  "take 5 (passes (snd (handleCollisions x l))) =
     [(''player'', ''enemies''), (''bullets'', ''mapLayer''), (''bullets'', ''enemies''),
      (''player'', ''mapLayer''), (''enemies'', ''mapLayer'')]
   \<and> map (count_list (passes (snd (handleCollisions x l))))
       [(''player'', ''enemies''), (''bullets'', ''mapLayer''), (''bullets'', ''enemies''),
        (''player'', ''mapLayer''), (''enemies'', ''mapLayer'')] = [1, 1, 1, 1, 1]"
  by (simp add: passes_def collides_handleCollisions)

section \<open>The invincible player\<close>

lemma collide_sprite_invincible:
  assumes "invincible p"
  shows "collide_sprite ov playerEnemyProcess cb p es t = (p, es, t)"
  by (rule collide_sprite_gated) (simp add: playerEnemyProcess_def assms)

lemma collide_player_enemies_invincible:
  assumes "player l = Obj p" and "invincible p"
  shows "collide_player_enemies x l =
           (l, [Collide (FieldArg ''player'' IsObject) (FieldArg ''enemies'' IsObject)
                  (Some ''_playerEnemyCollision'') (Some ''_playerEnemyProcess'')])"
proof -
  have "l\<lparr>player := Obj p, enemies := enemies l\<rparr> = l" using assms(1) by simp
  then show ?thesis
    using assms by (simp add: collide_player_enemies_def collide_sprite_invincible)
qed

lemma player_hits_level_bulletWallCollision:
  "filter is_player_hit (snd (snd (level_bulletWallCollision x b w t))) = filter is_player_hit t"
  by (simp add: level_bulletWallCollision_def)

lemma player_hits_level_bulletEnemyCollision:
  "filter is_player_hit (snd (snd (level_bulletEnemyCollision x b e t))) = filter is_player_hit t"
  by (simp add: level_bulletEnemyCollision_def Let_def)

lemma player_hits_collide_bullets_mapLayer:
  "filter is_player_hit (snd (collide_bullets_mapLayer x l)) = []"
proof (cases "\<exists>bs lay. bullets l = Obj bs \<and> mapLayer l = Obj lay")
  case True
  then obtain bs lay where o: "bullets l = Obj bs" "mapLayer l = Obj lay" by blast
  let ?t = "[Collide (FieldArg ''bullets'' IsObject) (FieldArg ''mapLayer'' IsObject)
                 (Some ''_bulletWallCollision'') None]"
  obtain bs1 ws1 t1 where r: "collide_groups (overlap_bullet_tile x) no_process
          (level_bulletWallCollision x) bs (tiles lay) ?t = (bs1, ws1, t1)"
    by (cases "collide_groups (overlap_bullet_tile x) no_process
          (level_bulletWallCollision x) bs (tiles lay) ?t")
  have "filter is_player_hit (snd (snd (collide_groups (overlap_bullet_tile x) no_process
          (level_bulletWallCollision x) bs (tiles lay) ?t))) = filter is_player_hit ?t"
    by (rule collide_groups_keeps) (rule player_hits_level_bulletWallCollision)
  then have "filter is_player_hit t1 = []" using r by simp
  then show ?thesis using o r
    by (simp add: collide_bullets_mapLayer_def)
next
  case False
  then show ?thesis
    by (cases "bullets l"; cases "mapLayer l") (simp_all add: collide_bullets_mapLayer_def)
qed

lemma player_hits_collide_bullets_enemies:
  "filter is_player_hit (snd (collide_bullets_enemies x l)) = []"
proof (cases "bullets l")
  case (Obj bs)
  let ?t = "[Collide (FieldArg ''bullets'' IsObject) (FieldArg ''enemies'' IsObject)
                 (Some ''_bulletEnemyCollision'') None]"
  obtain bs1 es1 t1 where r: "collide_groups (overlap_bullet_enemy x) no_process
          (level_bulletEnemyCollision x) bs (enemies l) ?t = (bs1, es1, t1)"
    by (cases "collide_groups (overlap_bullet_enemy x) no_process
          (level_bulletEnemyCollision x) bs (enemies l) ?t")
  have "filter is_player_hit (snd (snd (collide_groups (overlap_bullet_enemy x) no_process
          (level_bulletEnemyCollision x) bs (enemies l) ?t))) = filter is_player_hit ?t"
    by (rule collide_groups_keeps) (rule player_hits_level_bulletEnemyCollision)
  then have "filter is_player_hit t1 = []" using r by simp
  then show ?thesis using Obj r
    by (simp add: collide_bullets_enemies_def)
qed (simp_all add: collide_bullets_enemies_def)

text \<open>
  Claim C1. In a frame in which the player is invincible, \<open>handleCollisions\<close> leaves
  the player as it was, its health included, and never calls \<open>player.hit\<close>: the gate
  \<open>_playerEnemyProcess\<close> is asked before the collision callback of any overlapping
  enemy, so no damage is applied, whatever the enemies, the overlaps and the methods of
  the actor classes are.
\<close>

theorem invincible_player_keeps_health:
  assumes "player l = Obj p" and "invincible p"
  shows "player (fst (handleCollisions x l)) = Obj p
         \<and> filter is_player_hit (snd (handleCollisions x l)) = []"
proof -
  have p1: "collide_player_enemies x l =
           (l, [Collide (FieldArg ''player'' IsObject) (FieldArg ''enemies'' IsObject)
                  (Some ''_playerEnemyCollision'') (Some ''_playerEnemyProcess'')])"
    using assms by (rule collide_player_enemies_invincible)
  have "player (fst (handleCollisions x l)) = player l"
    by (simp add: handleCollisions_state p1 collide_bullets_enemies_frame
        collide_bullets_mapLayer_frame)
  moreover have "filter is_player_hit (snd (handleCollisions x l)) = []"
    by (subst handleCollisions_trace)
      (simp add: p1 player_hits_collide_bullets_mapLayer player_hits_collide_bullets_enemies
        collide_player_mapLayer_def collide_enemies_mapLayer_def collide_giblets_mapLayer_def)
  ultimately show ?thesis using assms(1) by simp
qed

text \<open>An invincible player that overlaps the sample enemy.\<close>

theorem invincible_player_keeps_health_witness:
  "player (sample_level\<lparr>player := Obj (sample_player\<lparr>invincible := True\<rparr>)\<rparr>)
     = Obj (sample_player\<lparr>invincible := True\<rparr>)
   \<and> invincible (sample_player\<lparr>invincible := True\<rparr>)
   \<and> overlap_player_enemy sample_ext (sample_player\<lparr>invincible := True\<rparr>) sample_enemy
   \<and> player (fst (handleCollisions sample_ext
        (sample_level\<lparr>player := Obj (sample_player\<lparr>invincible := True\<rparr>)\<rparr>)))
     = Obj (sample_player\<lparr>invincible := True\<rparr>)
   \<and> filter is_player_hit (snd (handleCollisions sample_ext
        (sample_level\<lparr>player := Obj (sample_player\<lparr>invincible := True\<rparr>)\<rparr>))) = []"
proof -
  have a: "player (sample_level\<lparr>player := Obj (sample_player\<lparr>invincible := True\<rparr>)\<rparr>)
     = Obj (sample_player\<lparr>invincible := True\<rparr>)" by simp
  have b: "invincible (sample_player\<lparr>invincible := True\<rparr>)" by simp
  have c: "overlap_player_enemy sample_ext (sample_player\<lparr>invincible := True\<rparr>) sample_enemy"
    by (simp add: sample_ext_def sample_player_def sample_enemy_def intersects_def)
  show ?thesis
    using invincible_player_keeps_health [OF a b, of sample_ext] a b c by simp
qed

section \<open>The paused session\<close>

text \<open>
  Claim C8. In a frame in which \<open>_running\<close> is false (or was never assigned),
  \<open>update\<close> returns at once: the state is the one it was given and no call is made,
  neither a collision pass nor a callback.
\<close>

theorem update_guarded_by_running:
  assumes "\<not> truthy (running_flag m)"
  shows "update x fps m = (m, [])"
  using assms by (simp add: update_def)

text \<open>A paused session in which the sample bullet overlaps the sample enemy.\<close>

theorem update_guarded_by_running_witness:
  "\<not> truthy (running_flag sample_main)
   \<and> overlap_bullet_enemy sample_ext sample_bullet sample_enemy
   \<and> update sample_ext 60 sample_main = (sample_main, [])"
proof -
  have a: "\<not> truthy (running_flag sample_main)" by (simp add: sample_main_def)
  have b: "overlap_bullet_enemy sample_ext sample_bullet sample_enemy"
    by (simp add: sample_ext_def sample_bullet_def sample_enemy_def intersects_def)
  show ?thesis using update_guarded_by_running [OF a, of sample_ext 60] a b by simp
qed

section \<open>The properties no operation assigns\<close>

lemma create_frame:
  assumes "create l = Inr (l1, t)"
  shows "giblets l1 = giblets l \<and> layerBg l1 = layerBg l"
  using assms by (auto simp: create_def split: jsref.splits)

lemma createObjects_frame:
  assumes "createObjects x who l = Inr (l1, es, t)"
  shows "giblets l1 = giblets l \<and> layerBg l1 = layerBg l"
  using assms by (auto simp: createObjects_def Let_def split: jsref.splits prod.splits)

lemma intro_frame:
  assumes "intro l = Inr (l1, t)"
  shows "giblets l1 = giblets l \<and> layerBg l1 = layerBg l"
  using assms by (auto simp: intro_def split: jsref.splits)

lemma beginIntro_frame:
  assumes "beginIntro l = Inr (l1, t)"
  shows "giblets l1 = giblets l \<and> layerBg l1 = layerBg l"
  using assms by (auto simp: beginIntro_def split: jsref.splits)

lemma startMission_frame:
  assumes "startMission x l = Inr (l1, t)"
  shows "giblets l1 = giblets l \<and> layerBg l1 = layerBg l"
  using assms
  by (auto simp: startMission_def showMissionStartText_def split: jsref.splits)

lemma flashTick_frame:
  assumes "flashTick l = Inr (l1, t)"
  shows "giblets l1 = giblets l \<and> layerBg l1 = layerBg l"
  using assms by (auto simp: flashTick_def split: jsref.splits if_splits)

lemma run_listener_frame:
  assumes "run_listener x f l = Inr (l1, t)"
  shows "giblets l1 = giblets l \<and> layerBg l1 = layerBg l"
  using assms by (cases f) (simp_all add: beginIntro_frame startMission_frame)

lemma run_listeners_frame:
  assumes "run_listeners x fs l = Inr (l1, t)"
  shows "giblets l1 = giblets l \<and> layerBg l1 = layerBg l"
  using assms
proof (induction fs arbitrary: l t)
  case Nil
  then show ?case by simp
next
  case (Cons f fs)
  from Cons.prems obtain l2 t2 l3 t3 where
    a: "run_listener x f l = Inr (l2, t2)" and b: "run_listeners x fs l2 = Inr (l3, t3)"
    and c: "l1 = l3"
    by (auto split: sum.splits)
  show ?case using run_listener_frame [OF a] Cons.IH [of l2 t3] b c by simp
qed

lemma walkComplete_frame:
  assumes "walkComplete x l = Inr (l1, t)"
  shows "giblets l1 = giblets l \<and> layerBg l1 = layerBg l"
proof (cases "walks l")
  case Nil
  then show ?thesis using assms by (simp add: walkComplete_def)
next
  case (Cons sg rest)
  then have "run_listeners x (map fst sg) (l\<lparr>walks := rest\<rparr>) = Inr (l1, t)"
    using assms by (simp add: walkComplete_def)
  from run_listeners_frame [OF this] show ?thesis by simp
qed

lemma dialogueFinished_frame:
  assumes "dialogueFinished x l = Inr (l1, t)"
  shows "giblets l1 = giblets l \<and> layerBg l1 = layerBg l"
proof (cases "dialogue l")
  case (Obj d)
  then have "run_listeners x (map fst (onFinished d))
      (l\<lparr>dialogue := Obj (d\<lparr>onFinished := keep_bindings (onFinished d)\<rparr>)\<rparr>) = Inr (l1, t)"
    using assms by (simp add: dialogueFinished_def)
  from run_listeners_frame [OF this] show ?thesis by simp
qed (use assms in \<open>simp_all add: dialogueFinished_def\<close>)

lemma step_frame:
  assumes "step x a l = Inr (l1, t)"
  shows "giblets l1 = giblets l \<and> layerBg l1 = layerBg l"
proof (cases a)
  case OpCreate
  then show ?thesis using assms create_frame by simp
next
  case (OpCreateObjects who)
  then obtain es where "createObjects x who l = Inr (l1, es, t)"
    using assms by (auto split: sum.splits)
  then show ?thesis by (rule createObjects_frame)
next
  case OpHandleCollisions
  then have "l1 = fst (handleCollisions x l)" using assms by auto
  then show ?thesis by (simp add: handleCollisions_frame)
next
  case OpIntro
  then show ?thesis using assms intro_frame by simp
next
  case OpWalkComplete
  then show ?thesis using assms walkComplete_frame by simp
next
  case OpDialogueFinished
  then show ?thesis using assms dialogueFinished_frame by simp
next
  case OpFlashTick
  then show ?thesis using assms flashTick_frame by simp
qed

lemma run_frame:
  assumes "run x ops l = Inr (l1, t)"
  shows "giblets l1 = giblets l \<and> layerBg l1 = layerBg l"
  using assms
proof (induction ops arbitrary: l t)
  case Nil
  then show ?case by simp
next
  case (Cons a ops)
  from Cons.prems obtain l2 t2 t3 where
    a: "step x a l = Inr (l2, t2)" and b: "run x ops l2 = Inr (l1, t3)"
    by (auto split: sum.splits)
  show ?case using step_frame [OF a] Cons.IH [OF b] by simp
qed

text \<open>The sample run up to the end of the intro dialogue raises no error.\<close>

lemma run_intro_ops:
  "\<exists>l t. run sample_ext intro_ops (new_Level sample_map ''level01'') = Inr (l, t)"
  by (simp add: intro_ops_def new_Level_def sample_map_def create_def createLayer_def
      createObjects_def createFromObjects_def zombieID_def sample_ext_def intro_def
      walkComplete_def beginIntro_def dialogueFinished_def startMission_def
      showMissionStartText_def keep_bindings_def Let_def)

text \<open>
  Claim C9. No operation of a level assigns \<open>giblets\<close>: in every state a level reaches
  from its construction the property holds \<open>undefined\<close>. Every call of
  \<open>handleCollisions\<close> there makes a sixth \<open>collide\<close> call, the last one, of
  \<open>this.giblets\<close> against the map layer, and it passes \<open>undefined\<close> as the group.
\<close>

theorem giblets_pass_undefined:
  assumes "run x ops (new_Level tm nm) = Inr (l, t)"
  shows "giblets l = Undefined
         \<and> drop 5 (collides (snd (handleCollisions x l))) =
             [(FieldArg ''giblets'' IsUndefined, FieldArg ''mapLayer'' (presence_of (mapLayer l)))]"
proof -
  have "giblets l = Undefined"
    using run_frame [OF assms] by (simp add: new_Level_def)
  then show ?thesis by (simp add: collides_handleCollisions)
qed

text \<open>The level at the end of the sample intro.\<close>

theorem giblets_pass_undefined_witness:
  "\<exists>l t. run sample_ext intro_ops (new_Level sample_map ''level01'') = Inr (l, t)
     \<and> giblets l = Undefined
     \<and> drop 5 (collides (snd (handleCollisions sample_ext l))) =
         [(FieldArg ''giblets'' IsUndefined, FieldArg ''mapLayer'' (presence_of (mapLayer l)))]"
proof -
  obtain l t where r: "run sample_ext intro_ops (new_Level sample_map ''level01'') = Inr (l, t)"
    using run_intro_ops by blast
  show ?thesis using giblets_pass_undefined [OF r] r by blast
qed

text \<open>
  Claim C10. No operation of a level assigns \<open>layerBg\<close>: in every state a level
  reaches from its construction it holds \<open>undefined\<close>. A call of \<open>create\<close> there
  that returns has passed \<open>undefined\<close> as the layer of \<open>setCollisionByExclusion\<close>, and
  has stored the layer it created in \<open>mapLayer\<close>; \<open>layerBg\<close> is still \<open>undefined\<close>
  after it.
\<close>

theorem create_layerBg_undefined:
  assumes "run x ops (new_Level tm nm) = Inr (l, t)" and "create l = Inr (l1, t1)"
  shows "layerBg l = Undefined
         \<and> t1 = [AddTilesetImage ''tiles'' ''tiles'', CreateLayer ''bg'', ResizeWorld,
                 SetCollisionByExclusion [1, 10] True (FieldArg ''layerBg'' IsUndefined) True,
                 SendToBack (FieldArg ''mapLayer'' IsObject),
                 AddAudio ''intromusic'', AddAudio ''leveldrums'']
         \<and> mapLayer l1 = createLayer (tmap l) ''bg''
         \<and> presence_of (mapLayer l1) = IsObject
         \<and> layerBg l1 = Undefined"
proof -
  have u: "layerBg l = Undefined"
    using run_frame [OF assms(1)] by (simp add: new_Level_def)
  show ?thesis using assms(2) u
    by (auto simp: create_def split: jsref.splits)
qed

text \<open>\<open>create\<close> on the sample level as constructed.\<close>

theorem create_layerBg_undefined_witness:
  "run sample_ext [] (new_Level sample_map ''level01'') = Inr (new_Level sample_map ''level01'', [])
   \<and> (\<exists>l1 t1. create (new_Level sample_map ''level01'') = Inr (l1, t1)
        \<and> t1 = [AddTilesetImage ''tiles'' ''tiles'', CreateLayer ''bg'', ResizeWorld,
                 SetCollisionByExclusion [1, 10] True (FieldArg ''layerBg'' IsUndefined) True,
                 SendToBack (FieldArg ''mapLayer'' IsObject),
                 AddAudio ''intromusic'', AddAudio ''leveldrums'']
        \<and> mapLayer l1 = Obj \<lparr>layer_name = ''bg'', tiles = [sample_tile]\<rparr>
        \<and> layerBg l1 = Undefined)"
proof -
  have r: "run sample_ext [] (new_Level sample_map ''level01'')
             = Inr (new_Level sample_map ''level01'', [])" by simp
  obtain l1 t1 where c: "create (new_Level sample_map ''level01'') = Inr (l1, t1)"
    by (simp add: create_def createLayer_def new_Level_def sample_map_def)
  have m: "createLayer (tmap (new_Level sample_map ''level01'')) ''bg''
             = Obj \<lparr>layer_name = ''bg'', tiles = [sample_tile]\<rparr>"
    by (simp add: createLayer_def new_Level_def sample_map_def sample_tile_def)
  show ?thesis using create_layerBg_undefined [OF r c] r c m by simp
qed

section \<open>Populating the level\<close>

text \<open>
  Claim C5, as amended. \<open>createObjects\<close> has no failure for missing spawn data:
  called with a player, it binds the player and its bullets, adds one enemy for every
  spawn object of the level's enemy marker (none when there is no such spawn data), sets
  the chase target and the ground reference of every enemy, and returns the enemy
  collection.
\<close>

theorem createObjects_returns_enemies:
  "\<exists>l1 t. createObjects x (Obj (p, bs)) l = Inr (l1, enemies l1, t)
     \<and> player l1 = Obj p \<and> bullets l1 = bs
     \<and> length (enemies l1) = length (enemies l) + length (spawn_data (tmap l))
     \<and> map chase (enemies l1) = replicate (length (enemies l1)) (Obj PlayerRef)
     \<and> map ground (enemies l1) = replicate (length (enemies l1)) (mapLayer l)"
  by (simp add: createObjects_def createFromObjects_def spawn_data_def Let_def comp_def
      map_replicate_const replicate_add split: option.splits)

text \<open>
  Claim C5 as stated fails: on a level whose tilemap has no spawn data, set up by
  \<open>create\<close>, \<open>createObjects\<close> reports no error. It returns the (empty) enemy
  collection.
\<close>

theorem createObjects_no_spawn_data:
  "spawn_data bare_map = []
   \<and> create (new_Level bare_map ''level01'')
       = Inr (bare_level,
              [AddTilesetImage ''tiles'' ''tiles'', CreateLayer ''bg'', ResizeWorld,
               SetCollisionByExclusion [1, 10] True (FieldArg ''layerBg'' IsUndefined) True,
               SendToBack (FieldArg ''mapLayer'' IsObject),
               AddAudio ''intromusic'', AddAudio ''leveldrums''])
   \<and> createObjects sample_ext (Obj (sample_player, Obj [sample_bullet])) bare_level
       = Inr (bare_level\<lparr>player := Obj sample_player, bullets := Obj [sample_bullet]\<rparr>,
              [],
              [CreateFromObjects ''spawnpoints'' 11 ''sprites'',
               SetAll ''chase'' (FieldArg ''player'' IsObject),
               SetAll ''ground'' (FieldArg ''mapLayer'' IsObject)])"
  by (simp add: spawn_data_def bare_map_def bare_level_def create_def createLayer_def
      createObjects_def createFromObjects_def new_Level_def zombieID_def)

section \<open>The bullet handlers of the main state\<close>

text \<open>
  Claim C6, as amended. The handlers of the main state do not ask whether the bullet is
  disabled already. Invoked on a disabled bullet, each of them leaves the bullet's frame
  and its disabled body as they are, and starts one more decay tween on its scale; the
  enemy handler also calls \<open>enemy.onHit(bullet)\<close> again.
\<close>

theorem disabled_bullet_hit_again:
  assumes "disabled b"
  shows "main_bulletWallCollision b w t =
           (b\<lparr>scale_tweens := scale_tweens b @ [decay_tween]\<rparr>, w, t @ [AddTween decay_tween])
         \<and> main_bulletEnemyCollision x b e t =
           (b\<lparr>scale_tweens := scale_tweens b @ [decay_tween]\<rparr>, enemy_onHit x b e,
            t @ [EnemyOnHit e b, AddTween decay_tween])"
proof -
  have "(bullet_body b)\<lparr>enable := False\<rparr> = bullet_body b"
    using assms by (simp add: disabled_def)
  moreover have "frameName b = ''bang''" using assms by (simp add: disabled_def)
  ultimately have "b\<lparr> frameName := ''bang'',
         bullet_body := (bullet_body b)\<lparr>enable := False\<rparr>,
         scale_tweens := scale_tweens b @ [decay_tween] \<rparr>
       = b\<lparr>scale_tweens := scale_tweens b @ [decay_tween]\<rparr>"
    by simp
  then show ?thesis
    by (simp add: main_bulletWallCollision_def main_bulletEnemyCollision_def)
qed

text \<open>The sample bullet after its first hit, hit again.\<close>

theorem disabled_bullet_hit_again_witness:
  "disabled spent_bullet
   \<and> main_bulletWallCollision spent_bullet sample_tile [] =
       (spent_bullet\<lparr>scale_tweens := [decay_tween, decay_tween]\<rparr>, sample_tile,
        [AddTween decay_tween])
   \<and> main_bulletEnemyCollision sample_ext spent_bullet sample_enemy [] =
       (spent_bullet\<lparr>scale_tweens := [decay_tween, decay_tween]\<rparr>,
        sample_enemy\<lparr>health := 6\<rparr>,
        [EnemyOnHit sample_enemy spent_bullet, AddTween decay_tween])"
proof -
  have d: "disabled spent_bullet" by (simp add: disabled_def spent_bullet_def)
  have t: "scale_tweens spent_bullet = [decay_tween]" by (simp add: spent_bullet_def)
  have h: "enemy_onHit sample_ext spent_bullet sample_enemy = sample_enemy\<lparr>health := 6\<rparr>"
    by (simp add: sample_ext_def spent_bullet_def sample_enemy_def)
  show ?thesis
    using disabled_bullet_hit_again [OF d, of sample_tile "[]" sample_ext sample_enemy] d t h
    by simp
qed

text \<open>
  Claim C6 as stated fails: a second invocation on the disabled sample bullet changes
  it (two decay tweens are running on it), and with the sample collaborators the enemy
  loses the bullet's damage once more.
\<close>

theorem disabled_bullet_not_idempotent:
  "disabled spent_bullet
   \<and> fst (main_bulletWallCollision spent_bullet sample_tile []) \<noteq> spent_bullet
   \<and> scale_tweens (fst (main_bulletWallCollision spent_bullet sample_tile []))
       = [decay_tween, decay_tween]
   \<and> fst (main_bulletEnemyCollision sample_ext spent_bullet sample_enemy []) \<noteq> spent_bullet
   \<and> health (fst (snd (main_bulletEnemyCollision sample_ext spent_bullet sample_enemy [])))
       = health sample_enemy - 3
   \<and> snd (snd (main_bulletEnemyCollision sample_ext spent_bullet sample_enemy []))
       = [EnemyOnHit sample_enemy spent_bullet, AddTween decay_tween]"
  by (simp add: disabled_def spent_bullet_def main_bulletWallCollision_def
      main_bulletEnemyCollision_def sample_ext_def sample_enemy_def)

section \<open>The mission start\<close>

lemma startMission_result:
  assumes "player l = Obj p" and "introMusic l = Obj a" and "bgMusic l = Obj b"
  shows "startMission x l =
     Inr (l\<lparr> player := Obj (player_makeHP x (p\<lparr>disableControls := False\<rparr>)),
             introMusic := Obj (a\<lparr>playing := False\<rparr>),
             bgMusic := Obj (b\<lparr>playing := True\<rparr>),
             flash := Obj \<lparr> text_x = of_nat (camera_width x) / 2,
                             text_y = of_nat (camera_height x) / 2,
                             content = ''MISSION START'', anchor = 1 / 2,
                             fixedToCamera = True, visible = True \<rparr>,
             flashTimer := Obj \<lparr> autoDestroy = False, delay = 600, repeatCount = 5,
                                  running = True \<rparr> \<rparr>,
          [MakeHP, AudioStop ''introMusic'', AudioPlay ''bgMusic'',
           AddText (of_nat (camera_width x) / 2) (of_nat (camera_height x) / 2)
             ''MISSION START'',
           TimerCreate False, TimerRepeat 600 5, TimerStart])"
  using assms by (simp add: startMission_def showMissionStartText_def)

lemma startMission_Inr:
  assumes "startMission x l = Inr (l1, t1)"
  shows "\<exists>p a b. player l = Obj p \<and> introMusic l = Obj a \<and> bgMusic l = Obj b"
  using assms by (auto simp: startMission_def split: jsref.splits)

lemma flashTick_step:
  assumes "flash l = Obj f" and "flashTimer l = Obj tm" and "running tm" and "0 < repeatCount tm"
  shows "flashTick l =
           Inr (l\<lparr> flash := Obj (f\<lparr>visible := \<not> visible f\<rparr>),
                  flashTimer := Obj (tm\<lparr> repeatCount := repeatCount tm - 1,
                                         running := (1 < repeatCount tm) \<rparr>) \<rparr>, [])"
  using assms by (simp add: flashTick_def)

lemma flashTick_stopped:
  assumes "flashTimer l = Obj tm" and "\<not> running tm"
  shows "flashTick l = Inr (l, [])"
  using assms by (simp add: flashTick_def)

lemma flashTicks_result:
  assumes "flash l = Obj f" and "flashTimer l = Obj tm"
    and "running tm = (0 < repeatCount tm)"
  shows "run x (replicate k OpFlashTick) l =
           Inr (l\<lparr> flash := Obj (f\<lparr>visible := (even (min k (repeatCount tm)) = visible f)\<rparr>),
                  flashTimer := Obj (tm\<lparr> repeatCount := repeatCount tm - min k (repeatCount tm),
                                         running := (k < repeatCount tm) \<rparr>) \<rparr>, [])"
  using assms
proof (induction k arbitrary: l f tm)
  case 0
  have "f\<lparr>visible := visible f\<rparr> = f" by simp
  moreover have "tm\<lparr>repeatCount := repeatCount tm, running := (0 < repeatCount tm)\<rparr> = tm"
    using "0.prems"(3) by (cases tm) simp
  moreover have "l\<lparr>flash := Obj f, flashTimer := Obj tm\<rparr> = l"
    using "0.prems"(1,2) by simp
  ultimately show ?case by simp
next
  case (Suc k)
  show ?case
  proof (cases "0 < repeatCount tm")
    case False
    then have nr: "\<not> running tm" using Suc.prems(3) by simp
    have t: "flashTick l = Inr (l, [])" by (rule flashTick_stopped [OF Suc.prems(2) nr])
    have "run x (replicate k OpFlashTick) l =
           Inr (l\<lparr> flash := Obj (f\<lparr>visible := (even (min k (repeatCount tm)) = visible f)\<rparr>),
                  flashTimer := Obj (tm\<lparr> repeatCount := repeatCount tm - min k (repeatCount tm),
                                         running := (k < repeatCount tm) \<rparr>) \<rparr>, [])"
      by (rule Suc.IH [OF Suc.prems])
    then show ?thesis using t False by simp
  next
    case True
    then have r: "running tm" using Suc.prems(3) by simp
    define f1 where "f1 = f\<lparr>visible := \<not> visible f\<rparr>"
    define tm1 where "tm1 = tm\<lparr>repeatCount := repeatCount tm - 1, running := (1 < repeatCount tm)\<rparr>"
    define l1 where "l1 = l\<lparr>flash := Obj f1, flashTimer := Obj tm1\<rparr>"
    have t: "flashTick l = Inr (l1, [])"
      using flashTick_step [OF Suc.prems(1,2) r True] by (simp add: l1_def f1_def tm1_def)
    have a: "flash l1 = Obj f1" "flashTimer l1 = Obj tm1" by (simp_all add: l1_def)
    have b: "running tm1 = (0 < repeatCount tm1)" using True by (auto simp: tm1_def)
    have ih: "run x (replicate k OpFlashTick) l1 =
           Inr (l1\<lparr> flash := Obj (f1\<lparr>visible := (even (min k (repeatCount tm1)) = visible f1)\<rparr>),
                  flashTimer := Obj (tm1\<lparr> repeatCount := repeatCount tm1 - min k (repeatCount tm1),
                                         running := (k < repeatCount tm1) \<rparr>) \<rparr>, [])"
      by (rule Suc.IH [OF a b])
    obtain r where rr: "repeatCount tm = Suc r" using True by (cases "repeatCount tm") auto
    have m: "min (Suc k) (repeatCount tm) = Suc (min k r)" by (simp add: rr)
    have c1: "repeatCount tm1 = r" by (simp add: tm1_def rr)
    have v: "(even (min k r) = visible f1) = (even (Suc (min k r)) = visible f)"
      by (auto simp: f1_def)
    have e1: "f1\<lparr>visible := (even (min k r) = visible f1)\<rparr>
                = f\<lparr>visible := (even (Suc (min k r)) = visible f)\<rparr>"
      unfolding v by (simp add: f1_def)
    have e2: "tm1\<lparr>repeatCount := r - min k r, running := (k < r)\<rparr>
                = tm\<lparr>repeatCount := Suc r - Suc (min k r), running := (Suc k < Suc r)\<rparr>"
      by (simp add: tm1_def)
    have e3: "l1\<lparr>flash := Obj (f\<lparr>visible := (even (Suc (min k r)) = visible f)\<rparr>),
                 flashTimer := Obj (tm\<lparr>repeatCount := Suc r - Suc (min k r),
                                        running := (Suc k < Suc r)\<rparr>)\<rparr>
              = l\<lparr>flash := Obj (f\<lparr>visible := (even (Suc (min k r)) = visible f)\<rparr>),
                 flashTimer := Obj (tm\<lparr>repeatCount := Suc r - Suc (min k r),
                                        running := (Suc k < Suc r)\<rparr>)\<rparr>"
      by (simp add: l1_def)
    have "run x (replicate (Suc k) OpFlashTick) l =
            Inr (l\<lparr>flash := Obj (f\<lparr>visible := (even (Suc (min k r)) = visible f)\<rparr>),
                 flashTimer := Obj (tm\<lparr>repeatCount := Suc r - Suc (min k r),
                                        running := (Suc k < Suc r)\<rparr>)\<rparr>, [])"
      using t ih unfolding c1 e1 e2 e3 by simp
    then show ?thesis unfolding m unfolding rr .
  qed
qed

text \<open>
  Claim C3, as amended. The side effects of the mission start happen when
  \<open>_startMission\<close> runs, before the flashing text exists: it re-enables the controls,
  calls \<open>_makeHP\<close>, stops the intro music and starts the level music, and only then
  creates the text and starts the timer of 5 repetitions at 600 ms. The ticks of the
  timer only toggle the visibility of the text and count the timer down: after \<open>k\<close>
  ticks the level is the one \<open>_startMission\<close> left, but for the text, toggled
  \<open>min k 5\<close> times, and the timer, which has stopped after the fifth; no tick makes
  a call.
\<close>

theorem mission_starts_before_flash:
  assumes "startMission x l = Inr (l1, t1)"
  shows "t1 = [MakeHP, AudioStop ''introMusic'', AudioPlay ''bgMusic'',
               AddText (of_nat (camera_width x) / 2) (of_nat (camera_height x) / 2)
                 ''MISSION START'',
               TimerCreate False, TimerRepeat 600 5, TimerStart]
         \<and> (\<exists>p a b. player l = Obj p \<and> introMusic l = Obj a \<and> bgMusic l = Obj b
               \<and> l1 = l\<lparr> player := Obj (player_makeHP x (p\<lparr>disableControls := False\<rparr>)),
                          introMusic := Obj (a\<lparr>playing := False\<rparr>),
                          bgMusic := Obj (b\<lparr>playing := True\<rparr>),
                          flash := Obj \<lparr> text_x = of_nat (camera_width x) / 2,
                                          text_y = of_nat (camera_height x) / 2,
                                          content = ''MISSION START'', anchor = 1 / 2,
                                          fixedToCamera = True, visible = True \<rparr>,
                          flashTimer := Obj \<lparr> autoDestroy = False, delay = 600,
                                               repeatCount = 5, running = True \<rparr> \<rparr>)
         \<and> (\<forall>k. run x (replicate k OpFlashTick) l1 =
               Inr (l1\<lparr> flash := Obj \<lparr> text_x = of_nat (camera_width x) / 2,
                                        text_y = of_nat (camera_height x) / 2,
                                        content = ''MISSION START'', anchor = 1 / 2,
                                        fixedToCamera = True, visible = even (min k 5) \<rparr>,
                        flashTimer := Obj \<lparr> autoDestroy = False, delay = 600,
                                             repeatCount = 5 - min k 5,
                                             running = (k < 5) \<rparr> \<rparr>, []))"
proof -
  obtain p a b where o: "player l = Obj p" "introMusic l = Obj a" "bgMusic l = Obj b"
    using startMission_Inr [OF assms] by blast
  define ft where "ft = \<lparr> text_x = (of_nat (camera_width x) / 2 :: rat),
                           text_y = of_nat (camera_height x) / 2,
                           content = ''MISSION START'', anchor = 1 / 2,
                           fixedToCamera = True, visible = True \<rparr>"
  define tm where "tm = \<lparr> autoDestroy = False, delay = 600, repeatCount = 5,
                           running = True \<rparr>"
  have "startMission x l = Inr (l1, t1)" by (rule assms)
  then have r: "l1 = l\<lparr> player := Obj (player_makeHP x (p\<lparr>disableControls := False\<rparr>)),
             introMusic := Obj (a\<lparr>playing := False\<rparr>),
             bgMusic := Obj (b\<lparr>playing := True\<rparr>),
             flash := Obj ft, flashTimer := Obj tm \<rparr>"
    and t: "t1 = [MakeHP, AudioStop ''introMusic'', AudioPlay ''bgMusic'',
           AddText (of_nat (camera_width x) / 2) (of_nat (camera_height x) / 2)
             ''MISSION START'',
           TimerCreate False, TimerRepeat 600 5, TimerStart]"
    unfolding startMission_result [OF o, of x] ft_def tm_def by simp_all
  have f1: "flash l1 = Obj ft" and f2: "flashTimer l1 = Obj tm" by (simp_all add: r)
  have f3: "running tm = (0 < repeatCount tm)" by (simp add: tm_def)
  have q: "run x (replicate k OpFlashTick) l1 =
             Inr (l1\<lparr> flash := Obj (ft\<lparr>visible := even (min k 5)\<rparr>),
                      flashTimer := Obj (tm\<lparr>repeatCount := 5 - min k 5,
                                              running := (k < 5)\<rparr>) \<rparr>, [])" for k
    using flashTicks_result [OF f1 f2 f3, of x k] by (simp add: tm_def ft_def)
  show ?thesis
    using o t q r by (simp add: ft_def tm_def)
qed

text \<open>
  The sample level when its intro dialogue finishes, and five ticks later: the text has
  been toggled five times and is hidden, the timer has stopped.
\<close>

theorem mission_starts_before_flash_witness:
  "\<exists>l1 t1.
     startMission sample_ext awaiting_level = Inr (l1, t1)
     \<and> t1 = [MakeHP, AudioStop ''introMusic'', AudioPlay ''bgMusic'',
             AddText 400 300 ''MISSION START'', TimerCreate False, TimerRepeat 600 5,
             TimerStart]
     \<and> controls_disabled l1 = Obj False \<and> flashes_left l1 = Obj 5
     \<and> run sample_ext (replicate 5 OpFlashTick) l1 =
         Inr (l1\<lparr> flash := Obj \<lparr> text_x = 400, text_y = 300, content = ''MISSION START'',
                                  anchor = 1 / 2, fixedToCamera = True, visible = False \<rparr>,
                  flashTimer := Obj \<lparr> autoDestroy = False, delay = 600, repeatCount = 0,
                                       running = False \<rparr> \<rparr>, [])"
proof -
  obtain l1 t1 where s: "startMission sample_ext awaiting_level = Inr (l1, t1)"
    by (simp add: startMission_def showMissionStartText_def awaiting_level_def
        walking_level_def sample_level_def)
  have w: "camera_width sample_ext = 800" "camera_height sample_ext = 600"
    "player_makeHP sample_ext = (\<lambda>p. p)"
    by (simp_all add: sample_ext_def)
  have p: "player awaiting_level
             = Obj (sample_player\<lparr>disableControls := True, animation := ''stand''\<rparr>)"
    by (simp add: awaiting_level_def)
  from mission_starts_before_flash [OF s]
  have c: "controls_disabled l1 = Obj False \<and> flashes_left l1 = Obj 5"
    using p w by (auto simp: controls_disabled_def flashes_left_def)
  from mission_starts_before_flash [OF s]
  have "run sample_ext (replicate 5 OpFlashTick) l1 =
         Inr (l1\<lparr> flash := Obj \<lparr> text_x = 400, text_y = 300, content = ''MISSION START'',
                                  anchor = 1 / 2, fixedToCamera = True, visible = False \<rparr>,
                  flashTimer := Obj \<lparr> autoDestroy = False, delay = 600, repeatCount = 0,
                                       running = False \<rparr> \<rparr>, [])"
    using w by simp
  then show ?thesis
    using mission_starts_before_flash [OF s] s c w by simp
qed

text \<open>
  Claim C3 as stated fails: the sample run ends when the intro dialogue finishes, and
  the flash timer has not fired in it. At its end all 5 repetitions are still to come,
  yet the controls are enabled again and the calls of the mission start have been made;
  starting the timer is the last call of the run.
\<close>

theorem mission_effects_precede_flash:
  "\<not> isl after_intro
   \<and> snd (projr after_intro) =
       [AddTilesetImage ''tiles'' ''tiles'', CreateLayer ''bg'', ResizeWorld,
        SetCollisionByExclusion [1, 10] True (FieldArg ''layerBg'' IsUndefined) True,
        SendToBack (FieldArg ''mapLayer'' IsObject),
        AddAudio ''intromusic'', AddAudio ''leveldrums'',
        CreateFromObjects ''spawnpoints'' 11 ''sprites'',
        SetAll ''chase'' (FieldArg ''player'' IsObject),
        SetAll ''ground'' (FieldArg ''mapLayer'' IsObject),
        AudioPlay ''introMusic'', AnimationPlay ''walk'', TweenFrom (- 30) 2000 Linear True,
        AnimationPlay ''stand'', DialogueStart ''level01_intro'',
        MakeHP, AudioStop ''introMusic'', AudioPlay ''bgMusic'',
        AddText 400 300 ''MISSION START'', TimerCreate False, TimerRepeat 600 5, TimerStart]
   \<and> controls_disabled (fst (projr after_intro)) = Obj False
   \<and> flashes_left (fst (projr after_intro)) = Obj 5"
  by (simp add: after_intro_def intro_ops_def new_Level_def sample_map_def create_def
      createLayer_def createObjects_def createFromObjects_def zombieID_def sample_ext_def
      intro_def walkComplete_def beginIntro_def dialogueFinished_def startMission_def
      showMissionStartText_def keep_bindings_def Let_def controls_disabled_def
      flashes_left_def sample_player_def)

section \<open>Duplicate dialogue signals\<close>

lemma dialogueFinished_quiet:
  assumes "dialogue l = Obj d" and "onFinished d = []"
  shows "dialogueFinished x l = Inr (l, [])"
proof -
  have "d\<lparr>onFinished := []\<rparr> = d" using assms(2) by simp
  then have "l\<lparr>dialogue := Obj (d\<lparr>onFinished := []\<rparr>)\<rparr> = l" using assms(1) by simp
  then show ?thesis using assms by (simp add: dialogueFinished_def keep_bindings_def)
qed

lemma dialogueFinished_quiet_run:
  assumes "dialogue l = Obj d" and "onFinished d = []"
  shows "run x (replicate n OpDialogueFinished) l = Inr (l, [])"
  by (induction n) (simp_all add: dialogueFinished_quiet [OF assms])

text \<open>
  Claim C4. After \<open>_beginIntro\<close> has started the intro dialogue (in a level whose
  musics \<open>create\<close> has set up), any number \<open>n + 1\<close> of dialogue-finished signals
  ends without an error in the same state, and with the same calls made, as a single
  signal: the mission start runs once, and every further signal finds no listener.
\<close>

theorem dialogue_finished_once:
  assumes "beginIntro l0 = Inr (l, t0)" and "introMusic l0 = Obj a" and "bgMusic l0 = Obj b"
  shows "\<exists>l1 t1. dialogueFinished x l = Inr (l1, t1)
           \<and> run x (replicate (Suc n) OpDialogueFinished) l = Inr (l1, t1)
           \<and> t1 = [MakeHP, AudioStop ''introMusic'', AudioPlay ''bgMusic'',
                   AddText (of_nat (camera_width x) / 2) (of_nat (camera_height x) / 2)
                     ''MISSION START'',
                   TimerCreate False, TimerRepeat 600 5, TimerStart]"
proof -
  obtain p where p: "player l0 = Obj p"
    and l: "l = l0\<lparr> player := Obj (p\<lparr>animation := ''stand''\<rparr>),
                    dialogue := Obj \<lparr> started = Obj (name l0 @ ''_intro''),
                                       onFinished = [(StartMission, True)] \<rparr> \<rparr>"
    using assms(1) by (auto simp: beginIntro_def split: jsref.splits)
  define d where "d = \<lparr> started = Obj (name l0 @ ''_intro''), onFinished = ([] :: signal) \<rparr>"
  define l' where "l' = l\<lparr>dialogue := Obj d\<rparr>"
  have o: "player l' = Obj (p\<lparr>animation := ''stand''\<rparr>)" "introMusic l' = Obj a"
    "bgMusic l' = Obj b"
    using assms(2,3) by (simp_all add: l'_def l)
  define t1 where "t1 = [MakeHP, AudioStop ''introMusic'', AudioPlay ''bgMusic'',
                   AddText (of_nat (camera_width x) / 2) (of_nat (camera_height x) / 2)
                     ''MISSION START'',
                   TimerCreate False, TimerRepeat 600 5, TimerStart]"
  obtain l1 where s: "startMission x l' = Inr (l1, t1)" and dl: "dialogue l1 = Obj d"
    unfolding startMission_result [OF o, of x] t1_def by (simp add: l'_def)
  have f: "dialogueFinished x l = Inr (l1, t1)"
    using s by (simp add: dialogueFinished_def l keep_bindings_def l'_def d_def)
  have q: "run x (replicate n OpDialogueFinished) l1 = Inr (l1, [])"
    by (rule dialogueFinished_quiet_run [OF dl]) (simp add: d_def)
  have "run x (replicate (Suc n) OpDialogueFinished) l = Inr (l1, t1)"
    using f q by simp
  then show ?thesis using f t1_def by blast
qed

text \<open>Three signals on the sample level.\<close>

theorem dialogue_finished_once_witness:
  "beginIntro walking_level
     = Inr (awaiting_level, [AnimationPlay ''stand'', DialogueStart ''level01_intro''])
   \<and> (\<exists>l1 t1. dialogueFinished sample_ext awaiting_level = Inr (l1, t1)
         \<and> run sample_ext (replicate 3 OpDialogueFinished) awaiting_level = Inr (l1, t1)
         \<and> t1 = [MakeHP, AudioStop ''introMusic'', AudioPlay ''bgMusic'',
                 AddText 400 300 ''MISSION START'', TimerCreate False, TimerRepeat 600 5,
                 TimerStart])"
proof -
  have b: "beginIntro walking_level
     = Inr (awaiting_level, [AnimationPlay ''stand'', DialogueStart ''level01_intro''])"
    by (simp add: beginIntro_def walking_level_def awaiting_level_def sample_level_def
        new_Level_def)
  have i: "introMusic walking_level = Obj \<lparr>audio_key = ''intromusic'', loop = False,
             volume = 1, playing = True\<rparr>"
    by (simp add: walking_level_def)
  have m: "bgMusic walking_level = Obj \<lparr>audio_key = ''leveldrums'', loop = True,
             volume = 6 / 10, playing = False\<rparr>"
    by (simp add: walking_level_def)
  have w: "camera_width sample_ext = 800" "camera_height sample_ext = 600"
    by (simp_all add: sample_ext_def)
  have three: "replicate 3 OpDialogueFinished = replicate (Suc 2) OpDialogueFinished"
    by (simp add: eval_nat_numeral)
  show ?thesis
    using dialogue_finished_once [OF b i m, of sample_ext 2] b w unfolding three by simp
qed

section \<open>A bullet that hits one enemy\<close>

















end
